theory Spec2Isabelle
  imports Main "HOL-Library.Word"
begin

section \<open>matrix-rss: the poll loop of main.go\<close>

text \<open>
  The program reads a configuration, then polls every configured feed forever: it fetches
  the feed, compares the \<open>updated\<close> field of the first entry with the value remembered in
  the map \<open>lastUpdates\<close>, and posts a message to a Matrix room when the two differ.
  The two source files of the repository carry the same loop body, the same
  \<open>sendMatrixMessage\<close> and (up to how the response body is read) the same \<open>fetchFeed\<close>;
  the model below is the model of both.

  The network and the libraries the program calls (\<open>net/http\<close>, \<open>encoding/xml\<close>,
  \<open>encoding/json\<close>, \<open>gomarkdown\<close>) are not code of the repository: they are the fields
  of an environment record. The network has a state of an arbitrary type \<open>'w\<close> that every
  call may change, so that two fetches of one URL may answer differently. Every call that
  leaves the process (a GET, a request handed to the HTTP client, a printed line, a
  sleep) is appended to a trace.
\<close>

subsection \<open>Data types\<close>

text \<open>The anonymous struct of the field \<open>Link\<close> of an entry.\<close>

record EntryLink =
  Href :: string

record Entry =
  Title :: string
  Updated :: string
  Link :: EntryLink

record Feed =
  Entries :: "Entry list"

record Config =
  FeedURLs :: "string list"
  MatrixServer :: string
  MatrixRoomID :: string
  MatrixToken :: string
  CheckInterval :: int

text \<open>A Go \<open>error\<close> value, by the text its \<open>Error()\<close> method returns.\<close>

datatype error = Error string

fun error_text :: "error \<Rightarrow> string" where
  "error_text (Error s) = s"

text \<open>What the program hands to \<open>client.Do\<close>, and what it reads of the answer.\<close>

record Request =
  Method :: string
  URL :: string
  Header :: "(string \<times> string) list"
  Body :: string

record Response =
  Status :: string
  StatusCode :: int

datatype event =
    HttpGet string
  | ClientDo Request
  | Println string
  | Sleep "64 word"

record 'w sys =
  world :: 'w
  trace :: "event list"

text \<open>
  The libraries. \<open>http_Get\<close> is \<open>http.Get\<close> together with the reading of the response
  body (\<open>io.ReadAll\<close> in one file, the reads of the XML decoder in the other), and answers
  the body or an error. \<open>http_NewRequest\<close> is given the method and the URL and answers the
  error of \<open>http.NewRequest\<close>, if any; the request itself is built in
  \<open>sendMatrixMessage\<close>. The JSON payload is a Go map from strings to strings.
\<close>

record 'w env =
  http_Get :: "string \<Rightarrow> 'w \<Rightarrow> (error + string) \<times> 'w"
  xml_Decode :: "string \<Rightarrow> error + Feed"
  markdown_ToHTML :: "string \<Rightarrow> string"
  json_Marshal :: "(string \<rightharpoonup> string) \<Rightarrow> error + string"
  http_NewRequest :: "string \<Rightarrow> string \<Rightarrow> error option"
  client_Do :: "Request \<Rightarrow> 'w \<Rightarrow> (error + Response) \<times> 'w"

text \<open>The state of \<open>main\<close> inside its loop: the outside world and the local map.\<close>

record 'w state =
  sys :: "'w sys"
  lastUpdates :: "string \<rightharpoonup> string"

subsection \<open>Formatting and printing\<close>

text \<open>
  \<open>fmt.Sprintf\<close> on string operands, for the format strings of this program: literal
  text, the verbs \<open>%s\<close> and \<open>%v\<close> (the operand as it is) and \<open>%%\<close>. A verb with no operand
  left, operands left over, a lone \<open>%\<close> at the end and any other verb letter are rendered
  as Go renders them; flags, widths and the verbs \<open>%q\<close>, \<open>%x\<close>, \<open>%X\<close> are not modelled and
  do not occur in the program. The operands are never scanned for verbs.
\<close>

fun extra_operands :: "string list \<Rightarrow> string" where
  "extra_operands [] = []"
| "extra_operands [a] = ''string='' @ a"
| "extra_operands (a # b # bs) = ''string='' @ a @ '', '' @ extra_operands (b # bs)"

fun sprintf :: "string \<Rightarrow> string list \<Rightarrow> string" where
  "sprintf [] [] = []"
| "sprintf [] (a # as) = ''%!(EXTRA '' @ extra_operands (a # as) @ '')''"
| "sprintf (c # fs) args =
     (if c \<noteq> CHR ''%'' then c # sprintf fs args
      else (case fs of
              [] \<Rightarrow> ''%!(NOVERB)'' @ sprintf [] args
            | v # fs' \<Rightarrow>
                if v = CHR ''%'' then CHR ''%'' # sprintf fs' args
                else (case args of
                        [] \<Rightarrow> ''%!'' @ [v] @ ''(MISSING)'' @ sprintf fs' []
                      | a # as \<Rightarrow>
                          if v = CHR ''s'' \<or> v = CHR ''v'' then a @ sprintf fs' as
                          else ''%!'' @ [v] @ ''(string='' @ a @ '')'' @ sprintf fs' as)))"

text \<open>\<open>fmt.Println\<close> on one line of text; the operands are joined by the caller.\<close>

definition println :: "string \<Rightarrow> 'w sys \<Rightarrow> 'w sys" where
  "println line io = io\<lparr>trace := trace io @ [Println line]\<rparr>"

text \<open>The requests handed to the HTTP client, in order: the notifications on the wire.\<close>

fun posts :: "event list \<Rightarrow> Request list" where
  "posts [] = []"
| "posts (ClientDo r # evs) = r # posts evs"
| "posts (_ # evs) = posts evs"

subsection \<open>fetchFeed\<close>

definition fetchFeed :: "'w env \<Rightarrow> string \<Rightarrow> 'w sys \<Rightarrow> (error + Feed) \<times> 'w sys" where
  "fetchFeed env url io =
     (case http_Get env url (world io) of
        (Inl err, w') \<Rightarrow> (Inl err, \<lparr>world = w', trace = trace io @ [HttpGet url]\<rparr>)
      | (Inr body, w') \<Rightarrow>
          (case xml_Decode env body of
             Inl err \<Rightarrow> (Inl err, \<lparr>world = w', trace = trace io @ [HttpGet url]\<rparr>)
           | Inr feed \<Rightarrow> (Inr feed, \<lparr>world = w', trace = trace io @ [HttpGet url]\<rparr>)))"

subsection \<open>sendMatrixMessage\<close>

text \<open>The map literal \<open>payload\<close> of \<open>sendMatrixMessage\<close>.\<close>

definition payload :: "string \<Rightarrow> string \<Rightarrow> (string \<rightharpoonup> string)" where
  "payload message htmlMessage =
     [''msgtype'' \<mapsto> ''m.text'',
      ''body'' \<mapsto> message,
      ''format'' \<mapsto> ''org.matrix.custom.html'',
      ''formatted_body'' \<mapsto> htmlMessage]"

text \<open>
  \<open>sendMatrixMessage\<close> is modelled in two parts. The first is the function up to and
  including \<open>req.Header.Set\<close>: it renders the message, builds the URL and the payload,
  serialises the payload and creates the request, with no effect outside the process. It
  answers the error the function returns there, or the request.
\<close>

definition matrix_request ::
  "'w env \<Rightarrow> string \<Rightarrow> string \<Rightarrow> string \<Rightarrow> string \<Rightarrow> error + Request" where
  "matrix_request env server roomID token message =
     (let htmlMessage = markdown_ToHTML env message;
          url = sprintf ''%s/_matrix/client/r0/rooms/%s/send/m.room.message?access_token=%s''
                  [server, roomID, token]
      in case json_Marshal env (payload message htmlMessage) of
           Inl err \<Rightarrow> Inl err
         | Inr payloadBytes \<Rightarrow>
             (case http_NewRequest env ''POST'' url of
                Some err \<Rightarrow> Inl err
              | None \<Rightarrow>
                  Inr \<lparr>Method = ''POST'', URL = url,
                       Header = [(''Content-Type'', ''application/json'')],
                       Body = payloadBytes\<rparr>))"

text \<open>
  The second part is the rest: the request goes to \<open>client.Do\<close>, and the status of the
  answer is compared with \<open>http.StatusOK\<close>. The result is \<open>None\<close> for Go's \<open>nil\<close> error.
\<close>

definition sendMatrixMessage ::
  "'w env \<Rightarrow> string \<Rightarrow> string \<Rightarrow> string \<Rightarrow> string \<Rightarrow> 'w sys \<Rightarrow> error option \<times> 'w sys" where
  "sendMatrixMessage env server roomID token message io =
     (case matrix_request env server roomID token message of
        Inl err \<Rightarrow> (Some err, io)
      | Inr req \<Rightarrow>
          (case client_Do env req (world io) of
             (Inl err, w') \<Rightarrow> (Some err, \<lparr>world = w', trace = trace io @ [ClientDo req]\<rparr>)
           | (Inr resp, w') \<Rightarrow>
               if StatusCode resp \<noteq> 200
               then (Some (Error (sprintf ''failed to send message: %s'' [Status resp])),
                     \<lparr>world = w', trace = trace io @ [ClientDo req]\<rparr>)
               else (None, \<lparr>world = w', trace = trace io @ [ClientDo req]\<rparr>)))"

subsection \<open>The loop of main\<close>

text \<open>
  Reading a Go map at a key: the zero value of the value type, here the empty string,
  when the key is absent.
\<close>

definition map_index :: "(string \<rightharpoonup> string) \<Rightarrow> string \<Rightarrow> string" where
  "map_index m k = (case m k of None \<Rightarrow> [] | Some v \<Rightarrow> v)"

text \<open>
  The second operand of the condition of the loop body,
  \<open>feed.Entries[0].Updated != lastUpdates[feedURL]\<close>, as a function of the map, the URL and
  the marker of the first entry.
\<close>

definition isNewUpdate :: "(string \<rightharpoonup> string) \<Rightarrow> string \<Rightarrow> string \<Rightarrow> bool" where
  "isNewUpdate m feedURL marker = (marker \<noteq> map_index m feedURL)"

text \<open>
  The whole condition, \<open>len(feed.Entries) > 0 && ...\<close>: the second operand is evaluated
  only when the first holds, so \<open>feed.Entries[0]\<close> is never read out of range.
\<close>

definition hasNewUpdate :: "(string \<rightharpoonup> string) \<Rightarrow> string \<Rightarrow> Feed \<Rightarrow> bool" where
  "hasNewUpdate m feedURL feed =
     (case Entries feed of
        [] \<Rightarrow> False
      | e # _ \<Rightarrow> isNewUpdate m feedURL (Updated e))"

text \<open>One iteration of the inner \<open>for\<close> loop, for one feed URL.\<close>

definition feed_step :: "'w env \<Rightarrow> Config \<Rightarrow> string \<Rightarrow> 'w state \<Rightarrow> 'w state" where
  "feed_step env config feedURL s =
     (case fetchFeed env feedURL (sys s) of
        (Inl err, io1) \<Rightarrow>
          s\<lparr>sys := println (''Error fetching feed: '' @ error_text err) io1\<rparr>
      | (Inr feed, io1) \<Rightarrow>
          if hasNewUpdate (lastUpdates s) feedURL feed
          then (let e = Entries feed ! 0;
                    lu = (lastUpdates s)(feedURL \<mapsto> Updated e);
                    message = sprintf ''IT-News: [%s](%s)'' [Title e, Href (Link e)]
                in case sendMatrixMessage env (MatrixServer config) (MatrixRoomID config)
                          (MatrixToken config) message io1 of
                     (Some err, io2) \<Rightarrow>
                       \<lparr>sys = println (''Error sending Matrix message: '' @ error_text err) io2,
                        lastUpdates = lu\<rparr>
                   | (None, io2) \<Rightarrow>
                       \<lparr>sys = println (''Update message sent for feed: '' @ feedURL) io2,
                        lastUpdates = lu\<rparr>)
          else \<lparr>sys = io1, lastUpdates = lastUpdates s\<rparr>)"

text \<open>The inner loop, \<open>for _, feedURL := range config.FeedURLs\<close>.\<close>

fun feeds_loop :: "'w env \<Rightarrow> Config \<Rightarrow> string list \<Rightarrow> 'w state \<Rightarrow> 'w state" where
  "feeds_loop env config [] s = s"
| "feeds_loop env config (feedURL # rest) s =
     feeds_loop env config rest (feed_step env config feedURL s)"

text \<open>
  One cycle: the inner loop, then \<open>time.Sleep(time.Duration(config.CheckInterval) *
  time.Minute)\<close>, a product of 64-bit integers counting nanoseconds.
\<close>

definition cycle :: "'w env \<Rightarrow> Config \<Rightarrow> 'w state \<Rightarrow> 'w state" where
  "cycle env config s =
     (let s' = feeds_loop env config (FeedURLs config) s
      in s'\<lparr>sys := (sys s')\<lparr>trace := trace (sys s') @
                [Sleep (word_of_int (CheckInterval config) * 60000000000)]\<rparr>\<rparr>)"

text \<open>
  The outer \<open>for\<close> never ends; \<open>cycles n\<close> is the state after its first \<open>n\<close> rounds. The
  configuration is the one read at start: the reload on a signal, which one of the two
  files has, runs concurrently and is not part of this model.
\<close>

fun cycles :: "nat \<Rightarrow> 'w env \<Rightarrow> Config \<Rightarrow> 'w state \<Rightarrow> 'w state" where
  "cycles 0 env config s = s"
| "cycles (Suc n) env config s = cycles n env config (cycle env config s)"

text \<open>The state in which \<open>main\<close> enters its loop: \<open>lastUpdates := make(map[string]string)\<close>.\<close>

definition initial :: "'w \<Rightarrow> 'w state" where
  "initial w = \<lparr>sys = \<lparr>world = w, trace = []\<rparr>, lastUpdates = Map.empty\<rparr>"

section \<open>A test double of the environment\<close>

text \<open>
  A small environment on which the model can be run. Its world counts the calls made so
  far. Three feeds answer: \<open>feed1\<close> with one entry, \<open>feed2\<close> with no entry and \<open>feed3\<close> with
  one entry whose \<open>updated\<close> field is empty; any other URL is unreachable. The chat server
  answers every request with the status given as parameter.
\<close>

definition demo_entry :: Entry where
  "demo_entry = \<lparr>Title = ''Big Release'', Updated = ''2024-01-01T00:00Z'',
                  Link = \<lparr>Href = ''https://x.io/a''\<rparr>\<rparr>"

definition demo_get :: "string \<Rightarrow> nat \<Rightarrow> (error + string) \<times> nat" where
  "demo_get url w =
     (if url = ''feed1'' then (Inr ''one'', Suc w)
      else if url = ''feed2'' then (Inr ''none'', Suc w)
      else if url = ''feed3'' then (Inr ''blank'', Suc w)
      else (Inl (Error ''no such host''), Suc w))"

definition demo_decode :: "string \<Rightarrow> error + Feed" where
  "demo_decode body =
     (if body = ''one'' then Inr \<lparr>Entries = [demo_entry]\<rparr>
      else if body = ''none'' then Inr \<lparr>Entries = []\<rparr>
      else if body = ''blank'' then Inr \<lparr>Entries = [demo_entry\<lparr>Updated := []\<rparr>]\<rparr>
      else Inl (Error ''EOF''))"

definition demo_do :: "int \<Rightarrow> Request \<Rightarrow> nat \<Rightarrow> (error + Response) \<times> nat" where
  "demo_do code req w = (Inr \<lparr>Status = ''status'', StatusCode = code\<rparr>, Suc w)"

definition demo_env :: "int \<Rightarrow> nat env" where
  "demo_env code =
     \<lparr>http_Get = demo_get,
      xml_Decode = demo_decode,
      markdown_ToHTML = (\<lambda>m. ''<p>'' @ m @ ''</p>''),
      json_Marshal = (\<lambda>p. Inr (map_index p ''body'')),
      http_NewRequest = (\<lambda>method url. None),
      client_Do = demo_do code\<rparr>"

text \<open>The same environment, where the entry of \<open>feed1\<close> has another title and link.\<close>

definition demo_env_retitled :: "int \<Rightarrow> nat env" where
  "demo_env_retitled code =
     (demo_env code)\<lparr>xml_Decode := (\<lambda>body.
        if body = ''one''
        then Inr \<lparr>Entries = [demo_entry\<lparr>Title := ''Other'', Link := \<lparr>Href = ''https://y.io/b''\<rparr>\<rparr>]\<rparr>
        else demo_decode body)\<rparr>"

definition demo_config :: "string list \<Rightarrow> Config" where
  "demo_config urls =
     \<lparr>FeedURLs = urls, MatrixServer = ''srv'', MatrixRoomID = ''room'',
      MatrixToken = ''tok'', CheckInterval = 30\<rparr>"

definition demo_request :: Request where
  "demo_request =
     \<lparr>Method = ''POST'',
      URL = ''srv/_matrix/client/r0/rooms/room/send/m.room.message?access_token=tok'',
      Header = [(''Content-Type'', ''application/json'')],
      Body = ''IT-News: [Big Release](https://x.io/a)''\<rparr>"

section \<open>Properties\<close>

subsection \<open>The effects of the parts\<close>

text \<open>
  What each part appends to the trace, and the three ways one iteration of the inner loop
  can go: the fetch fails, the condition of the loop body is false, or it is true.
\<close>

lemma posts_append: "posts (xs @ ys) = posts xs @ posts ys"
  by (induction xs rule: posts.induct) simp_all

lemma fetchFeed_sys:
  "fetchFeed env url io = (r, io') \<Longrightarrow> trace io' = trace io @ [HttpGet url]"
  by (auto simp: fetchFeed_def split: prod.splits sum.splits)

lemma fetchFeed_posts:
  "fetchFeed env url io = (r, io') \<Longrightarrow> posts (trace io') = posts (trace io)"
  by (simp add: fetchFeed_sys posts_append)

lemma sendMatrixMessage_posts:
  "sendMatrixMessage env server roomID token message io = (r, io') \<Longrightarrow>
   posts (trace io') = posts (trace io) @
     (case matrix_request env server roomID token message of Inl err \<Rightarrow> [] | Inr req \<Rightarrow> [req])"
  by (auto simp: sendMatrixMessage_def posts_append split: prod.splits sum.splits if_splits)

lemma println_posts: "posts (trace (println line io)) = posts (trace io)"
  by (simp add: println_def posts_append)

lemma sprintf_url:
  "sprintf ''%s/_matrix/client/r0/rooms/%s/send/m.room.message?access_token=%s'' [a, b, c]
   = a @ ''/_matrix/client/r0/rooms/'' @ b @ ''/send/m.room.message?access_token='' @ c"
  by simp

lemma feed_step_fetch_error:
  "fetchFeed env feedURL (sys s) = (Inl err, io1) \<Longrightarrow>
   feed_step env config feedURL s = s\<lparr>sys := println (''Error fetching feed: '' @ error_text err) io1\<rparr>"
  by (simp add: feed_step_def)

lemma feed_step_skip:
  "fetchFeed env feedURL (sys s) = (Inr feed, io1) \<Longrightarrow>
   \<not> hasNewUpdate (lastUpdates s) feedURL feed \<Longrightarrow>
   feed_step env config feedURL s = \<lparr>sys = io1, lastUpdates = lastUpdates s\<rparr>"
  by (simp add: feed_step_def)

lemma feed_step_notify:
  "fetchFeed env feedURL (sys s) = (Inr feed, io1) \<Longrightarrow>
   Entries feed = e # es \<Longrightarrow>
   isNewUpdate (lastUpdates s) feedURL (Updated e) \<Longrightarrow>
   sendMatrixMessage env (MatrixServer config) (MatrixRoomID config) (MatrixToken config)
     (''IT-News: ['' @ Title e @ ''](''  @ Href (Link e) @ '')'') io1 = (r, io2) \<Longrightarrow>
   feed_step env config feedURL s =
     \<lparr>sys = println (case r of
                      Some err \<Rightarrow> ''Error sending Matrix message: '' @ error_text err
                    | None \<Rightarrow> ''Update message sent for feed: '' @ feedURL) io2,
      lastUpdates = (lastUpdates s)(feedURL \<mapsto> Updated e)\<rparr>"
  by (simp add: feed_step_def hasNewUpdate_def Let_def split: option.splits)

lemma feeds_loop_append:
  "feeds_loop env config (xs @ ys) s = feeds_loop env config ys (feeds_loop env config xs s)"
  by (induction xs arbitrary: s) simp_all

lemma feed_step_lastUpdates:
  "fetchFeed env feedURL (sys s) = (Inr feed, io1) \<Longrightarrow>
   lastUpdates (feed_step env config feedURL s) =
     (if hasNewUpdate (lastUpdates s) feedURL feed
      then (lastUpdates s)(feedURL \<mapsto> Updated (Entries feed ! 0))
      else lastUpdates s)"
  by (simp add: feed_step_def Let_def split: prod.splits option.splits)

lemma feed_step_other:
  "k \<noteq> feedURL \<Longrightarrow> lastUpdates (feed_step env config feedURL s) k = lastUpdates s k"
  by (simp add: feed_step_def Let_def split: prod.splits sum.splits option.splits)

lemma feeds_loop_other:
  "k \<notin> set urls \<Longrightarrow> lastUpdates (feeds_loop env config urls s) k = lastUpdates s k"
  by (induction urls arbitrary: s) (simp_all add: feed_step_other)

lemma cycle_lastUpdates:
  "lastUpdates (cycle env config s) = lastUpdates (feeds_loop env config (FeedURLs config) s)"
  by (simp add: cycle_def Let_def)

lemma feed_step_same_marker:
  assumes "lastUpdates s feedURL = Some (Updated e)"
    and "fetchFeed env feedURL (sys s) = (Inr feed, io1)"
    and "Entries feed = e' # es"
    and "Updated e' = Updated e"
  shows "feed_step env config feedURL s = \<lparr>sys = io1, lastUpdates = lastUpdates s\<rparr>"
    and "posts (trace (sys (feed_step env config feedURL s))) = posts (trace (sys s))"
proof -
  have "\<not> hasNewUpdate (lastUpdates s) feedURL feed"
    using assms(1,3,4) by (simp add: hasNewUpdate_def isNewUpdate_def map_index_def)
  with assms(2) show step: "feed_step env config feedURL s = \<lparr>sys = io1, lastUpdates = lastUpdates s\<rparr>"
    by (rule feed_step_skip)
  show "posts (trace (sys (feed_step env config feedURL s))) = posts (trace (sys s))"
    using fetchFeed_posts [OF assms(2)] by (simp add: step)
qed

lemma next_cycle_marker:
  assumes "FeedURLs config = before @ feedURL # rest"
    and "feedURL \<notin> set before" and "feedURL \<notin> set rest"
  shows "lastUpdates (feeds_loop env config before (cycle env config s0)) feedURL
         = lastUpdates (feed_step env config feedURL (feeds_loop env config before s0)) feedURL"
proof -
  have "lastUpdates (feeds_loop env config before (cycle env config s0)) feedURL
        = lastUpdates (cycle env config s0) feedURL"
    using assms(2) by (rule feeds_loop_other)
  also have "\<dots> = lastUpdates (feeds_loop env config rest
                 (feed_step env config feedURL (feeds_loop env config before s0))) feedURL"
    by (simp add: cycle_lastUpdates assms(1) feeds_loop_append)
  also have "\<dots> = lastUpdates (feed_step env config feedURL (feeds_loop env config before s0)) feedURL"
    using assms(3) by (rule feeds_loop_other)
  finally show ?thesis .
qed

subsection \<open>The test double, evaluated\<close>

lemma demo_fetch1:
  "fetchFeed (demo_env code) ''feed1'' io = (Inr \<lparr>Entries = [demo_entry]\<rparr>, \<lparr>world = Suc (world io), trace = trace io @ [HttpGet ''feed1'']\<rparr>)"
  by (simp add: fetchFeed_def demo_env_def demo_get_def demo_decode_def)

lemma demo_fetch2:
  "fetchFeed (demo_env code) ''feed2'' io = (Inr \<lparr>Entries = []\<rparr>, \<lparr>world = Suc (world io), trace = trace io @ [HttpGet ''feed2'']\<rparr>)"
  by (simp add: fetchFeed_def demo_env_def demo_get_def demo_decode_def)

lemma demo_fetch3:
  "fetchFeed (demo_env code) ''feed3'' io = (Inr \<lparr>Entries = [demo_entry\<lparr>Updated := []\<rparr>]\<rparr>, \<lparr>world = Suc (world io), trace = trace io @ [HttpGet ''feed3'']\<rparr>)"
  by (simp add: fetchFeed_def demo_env_def demo_get_def demo_decode_def)

lemma demo_fetch_down:
  "fetchFeed (demo_env code) ''down'' io = (Inl (Error ''no such host''), \<lparr>world = Suc (world io), trace = trace io @ [HttpGet ''down'']\<rparr>)"
  by (simp add: fetchFeed_def demo_env_def demo_get_def demo_decode_def)

lemma demo_fetch1_retitled:
  "fetchFeed (demo_env_retitled code) ''feed1'' io
     = (Inr \<lparr>Entries = [demo_entry\<lparr>Title := ''Other'', Link := \<lparr>Href = ''https://y.io/b''\<rparr>\<rparr>]\<rparr>,
        \<lparr>world = Suc (world io), trace = trace io @ [HttpGet ''feed1'']\<rparr>)"
  by (simp add: fetchFeed_def demo_env_retitled_def demo_env_def demo_get_def)

lemma demo_matrix_request:
  "matrix_request (demo_env code) ''srv'' ''room'' ''tok'' ''IT-News: [Big Release](https://x.io/a)'' = Inr demo_request"
  by (simp add: matrix_request_def demo_env_def payload_def map_index_def demo_request_def)

lemma demo_send:
  "sendMatrixMessage (demo_env code) ''srv'' ''room'' ''tok'' ''IT-News: [Big Release](https://x.io/a)'' io
   = (if code \<noteq> 200 then Some (Error ''failed to send message: status'') else None,
      \<lparr>world = Suc (world io), trace = trace io @ [ClientDo demo_request]\<rparr>)"
  by (simp add: sendMatrixMessage_def demo_matrix_request) (simp add: demo_env_def demo_do_def)

lemma demo_step1:
  "lastUpdates s ''feed1'' \<noteq> Some ''2024-01-01T00:00Z'' \<Longrightarrow>
   feed_step (demo_env code) (demo_config urls) ''feed1'' s =
   \<lparr>sys = \<lparr>world = Suc (Suc (world (sys s))),
            trace = trace (sys s) @ [HttpGet ''feed1'', ClientDo demo_request,
               Println (if code \<noteq> 200 then ''Error sending Matrix message: failed to send message: status''
                        else ''Update message sent for feed: feed1'')]\<rparr>,
     lastUpdates = (lastUpdates s)(''feed1'' \<mapsto> ''2024-01-01T00:00Z'')\<rparr>"
  apply (simp add: feed_step_def demo_fetch1 hasNewUpdate_def isNewUpdate_def map_index_def demo_config_def)
  apply (auto simp add: demo_entry_def demo_send println_def split: option.splits)
  done

lemma demo_step3:
  "lastUpdates s ''feed3'' = None \<Longrightarrow>
   feed_step (demo_env code) (demo_config urls) ''feed3'' s =
   \<lparr>sys = \<lparr>world = Suc (world (sys s)), trace = trace (sys s) @ [HttpGet ''feed3'']\<rparr>,
     lastUpdates = lastUpdates s\<rparr>"
  by (simp add: feed_step_def demo_fetch3 hasNewUpdate_def isNewUpdate_def map_index_def)

lemma demo_step1_same:
  "lastUpdates s ''feed1'' = Some ''2024-01-01T00:00Z'' \<Longrightarrow>
   feed_step (demo_env code) (demo_config urls) ''feed1'' s =
   \<lparr>sys = \<lparr>world = Suc (world (sys s)), trace = trace (sys s) @ [HttpGet ''feed1'']\<rparr>,
     lastUpdates = lastUpdates s\<rparr>"
  by (simp add: feed_step_def demo_fetch1 hasNewUpdate_def isNewUpdate_def map_index_def demo_entry_def)

lemma demo_urls: "FeedURLs (demo_config urls) = urls"
  by (simp add: demo_config_def)

lemma demo_cycle_first:
  "cycle (demo_env code) (demo_config [''feed1'']) (initial 0) =
   \<lparr>sys = \<lparr>world = 2,
            trace = [HttpGet ''feed1'', ClientDo demo_request,
               Println (if code \<noteq> 200 then ''Error sending Matrix message: failed to send message: status''
                        else ''Update message sent for feed: feed1''),
               Sleep 1800000000000]\<rparr>,
     lastUpdates = [''feed1'' \<mapsto> ''2024-01-01T00:00Z'']\<rparr>"
proof -
  have "lastUpdates (initial (0::nat)) ''feed1'' \<noteq> Some ''2024-01-01T00:00Z''"
    by (simp add: initial_def)
  then have "feeds_loop (demo_env code) (demo_config [''feed1'']) [''feed1''] (initial 0) =
   \<lparr>sys = \<lparr>world = 2,
            trace = [HttpGet ''feed1'', ClientDo demo_request,
               Println (if code \<noteq> 200 then ''Error sending Matrix message: failed to send message: status''
                        else ''Update message sent for feed: feed1'')]\<rparr>,
     lastUpdates = [''feed1'' \<mapsto> ''2024-01-01T00:00Z'']\<rparr>"
    by (simp add: demo_step1) (simp add: initial_def)
  then show ?thesis
    by (simp add: cycle_def demo_urls) (simp add: demo_config_def)
qed

lemma demo_cycle_same:
  "lastUpdates s ''feed1'' = Some ''2024-01-01T00:00Z'' \<Longrightarrow>
   posts (trace (sys (cycle (demo_env code) (demo_config [''feed1'']) s))) = posts (trace (sys s))"
  by (simp add: cycle_def demo_urls demo_step1_same posts_append)

subsection \<open>Recording and delivery\<close>

text \<open>
  With a chat server that answers 500 to every request, a feed never seen before is
  recorded in \<open>lastUpdates\<close> by the very step whose delivery fails, and two rounds of the
  outer loop hand one request to the HTTP client, not two: the failed notification is
  not tried again.
\<close>

theorem delivery_failure_counterexample:
  "lastUpdates (initial (0::nat)) ''feed1'' = None
   \<and> fst (sendMatrixMessage (demo_env 500) ''srv'' ''room'' ''tok''
            ''IT-News: [Big Release](https://x.io/a)''
            (snd (fetchFeed (demo_env 500) ''feed1'' (sys (initial 0)))))
       = Some (Error ''failed to send message: status'')
   \<and> lastUpdates (feed_step (demo_env 500) (demo_config [''feed1'']) ''feed1'' (initial 0)) ''feed1''
       = Some ''2024-01-01T00:00Z''
   \<and> posts (trace (sys (cycles 2 (demo_env 500) (demo_config [''feed1'']) (initial 0))))
       = [demo_request]"
proof -
  have a: "lastUpdates (initial (0::nat)) ''feed1'' = None"
    by (simp add: initial_def)
  have b: "fst (sendMatrixMessage (demo_env 500) ''srv'' ''room'' ''tok''
            ''IT-News: [Big Release](https://x.io/a)''
            (snd (fetchFeed (demo_env 500) ''feed1'' (sys (initial 0)))))
       = Some (Error ''failed to send message: status'')"
    by (simp add: demo_send)
  have c: "lastUpdates (feed_step (demo_env 500) (demo_config [''feed1'']) ''feed1'' (initial 0)) ''feed1''
       = Some ''2024-01-01T00:00Z''"
    using a by (simp add: demo_step1)
  have two: "cycles 2 (demo_env 500) (demo_config [''feed1'']) (initial 0)
      = cycle (demo_env 500) (demo_config [''feed1''])
          (cycle (demo_env 500) (demo_config [''feed1'']) (initial 0))"
    by (simp add: numeral_2_eq_2)
  have d: "posts (trace (sys (cycles 2 (demo_env 500) (demo_config [''feed1'']) (initial 0))))
       = [demo_request]"
    unfolding two by (subst demo_cycle_same) (simp_all add: demo_cycle_first)
  show ?thesis by (intro conjI a b c d)
qed

text \<open>
  C1, as the code has it. The loop body assigns \<open>lastUpdates[feedURL]\<close> before it calls
  \<open>sendMatrixMessage\<close>. So in every step in which the first entry's marker is judged new,
  the entry of the map for that URL is set to that marker whatever the delivery answers
  (\<open>r\<close> is the error it returns, or \<open>None\<close>), and the line printed tells the outcome.
  For as long as the map holds that marker for the URL, a step for the URL that fetches a
  feed with the same first marker only fetches: it hands no request to the HTTP client and
  leaves the map as it is. When the URL occurs once in the configured list, the map still
  holds the marker when the next round reaches the URL, so a notification whose delivery
  failed is not tried again in the next round if the first marker of the feed is still
  the same.
\<close>

theorem marker_recorded_before_delivery:
  fixes env :: "'w env"
  assumes "fetchFeed env feedURL (sys s) = (Inr feed, io1)"
    and "Entries feed = e # es"
    and "isNewUpdate (lastUpdates s) feedURL (Updated e)"
    and "sendMatrixMessage env (MatrixServer config) (MatrixRoomID config) (MatrixToken config)
           (''IT-News: ['' @ Title e @ ''](''  @ Href (Link e) @ '')'') io1 = (r, io2)"
  shows "feed_step env config feedURL s =
           \<lparr>sys = println (case r of
                            Some err \<Rightarrow> ''Error sending Matrix message: '' @ error_text err
                          | None \<Rightarrow> ''Update message sent for feed: '' @ feedURL) io2,
            lastUpdates = (lastUpdates s)(feedURL \<mapsto> Updated e)\<rparr>
         \<and> lastUpdates (feed_step env config feedURL s) feedURL = Some (Updated e)
         \<and> \<not> isNewUpdate (lastUpdates (feed_step env config feedURL s)) feedURL (Updated e)
         \<and> (\<forall>s2 feed2 io3 e2 es2.
               lastUpdates s2 feedURL = Some (Updated e)
               \<and> fetchFeed env feedURL (sys s2) = (Inr feed2, io3)
               \<and> Entries feed2 = e2 # es2 \<and> Updated e2 = Updated e \<longrightarrow>
               feed_step env config feedURL s2 = \<lparr>sys = io3, lastUpdates = lastUpdates s2\<rparr>
               \<and> posts (trace (sys (feed_step env config feedURL s2))) = posts (trace (sys s2)))
         \<and> (\<forall>s0 before rest feed2 io3 e2 es2.
               FeedURLs config = before @ feedURL # rest
               \<and> feedURL \<notin> set before \<and> feedURL \<notin> set rest
               \<and> feeds_loop env config before s0 = s
               \<and> fetchFeed env feedURL (sys (feeds_loop env config before (cycle env config s0)))
                   = (Inr feed2, io3)
               \<and> Entries feed2 = e2 # es2 \<and> Updated e2 = Updated e \<longrightarrow>
               lastUpdates (feeds_loop env config before (cycle env config s0)) feedURL
                 = Some (Updated e)
               \<and> feed_step env config feedURL (feeds_loop env config before (cycle env config s0))
                   = \<lparr>sys = io3,
                      lastUpdates = lastUpdates (feeds_loop env config before (cycle env config s0))\<rparr>
               \<and> posts (trace (sys (feed_step env config feedURL
                                       (feeds_loop env config before (cycle env config s0)))))
                   = posts (trace (sys (feeds_loop env config before (cycle env config s0)))))"
proof -
  have step: "feed_step env config feedURL s =
           \<lparr>sys = println (case r of
                            Some err \<Rightarrow> ''Error sending Matrix message: '' @ error_text err
                          | None \<Rightarrow> ''Update message sent for feed: '' @ feedURL) io2,
            lastUpdates = (lastUpdates s)(feedURL \<mapsto> Updated e)\<rparr>"
    using assms by (rule feed_step_notify)
  have rec: "lastUpdates (feed_step env config feedURL s) feedURL = Some (Updated e)"
    by (simp add: step)
  have notnew: "\<not> isNewUpdate (lastUpdates (feed_step env config feedURL s)) feedURL (Updated e)"
    by (simp add: rec isNewUpdate_def map_index_def)
  have later: "feed_step env config feedURL s2 = \<lparr>sys = io3, lastUpdates = lastUpdates s2\<rparr>
               \<and> posts (trace (sys (feed_step env config feedURL s2))) = posts (trace (sys s2))"
    if "lastUpdates s2 feedURL = Some (Updated e)"
      and "fetchFeed env feedURL (sys s2) = (Inr feed2, io3)"
      and "Entries feed2 = e2 # es2" and "Updated e2 = Updated e"
    for s2 :: "'w state" and feed2 io3 e2 es2
    using feed_step_same_marker [OF that] by (rule conjI)
  have nxt: "lastUpdates (feeds_loop env config before (cycle env config s0)) feedURL
                 = Some (Updated e)"
    if "FeedURLs config = before @ feedURL # rest"
      and "feedURL \<notin> set before" and "feedURL \<notin> set rest"
      and "feeds_loop env config before s0 = s"
    for s0 :: "'w state" and before rest
    using next_cycle_marker [OF that(1,2,3), of env s0] by (simp add: that(4) rec)
  show ?thesis
  proof (intro conjI allI impI)
    show "feed_step env config feedURL s =
           \<lparr>sys = println (case r of
                            Some err \<Rightarrow> ''Error sending Matrix message: '' @ error_text err
                          | None \<Rightarrow> ''Update message sent for feed: '' @ feedURL) io2,
            lastUpdates = (lastUpdates s)(feedURL \<mapsto> Updated e)\<rparr>"
      by (rule step)
    show "lastUpdates (feed_step env config feedURL s) feedURL = Some (Updated e)"
      by (rule rec)
    show "\<not> isNewUpdate (lastUpdates (feed_step env config feedURL s)) feedURL (Updated e)"
      by (rule notnew)
  next
    fix s2 :: "'w state" and feed2 io3 e2 es2
    assume "lastUpdates s2 feedURL = Some (Updated e)
               \<and> fetchFeed env feedURL (sys s2) = (Inr feed2, io3)
               \<and> Entries feed2 = e2 # es2 \<and> Updated e2 = Updated e"
    then have h: "lastUpdates s2 feedURL = Some (Updated e)"
      "fetchFeed env feedURL (sys s2) = (Inr feed2, io3)"
      "Entries feed2 = e2 # es2" "Updated e2 = Updated e" by simp_all
    show "feed_step env config feedURL s2 = \<lparr>sys = io3, lastUpdates = lastUpdates s2\<rparr>"
      using later [OF h] by (rule conjunct1)
    show "posts (trace (sys (feed_step env config feedURL s2))) = posts (trace (sys s2))"
      using later [OF h] by (rule conjunct2)
  next
    fix s0 :: "'w state" and before rest feed2 io3 e2 es2
    assume "FeedURLs config = before @ feedURL # rest
               \<and> feedURL \<notin> set before \<and> feedURL \<notin> set rest
               \<and> feeds_loop env config before s0 = s
               \<and> fetchFeed env feedURL (sys (feeds_loop env config before (cycle env config s0)))
                   = (Inr feed2, io3)
               \<and> Entries feed2 = e2 # es2 \<and> Updated e2 = Updated e"
    then have h: "FeedURLs config = before @ feedURL # rest"
      "feedURL \<notin> set before" "feedURL \<notin> set rest"
      "feeds_loop env config before s0 = s"
      and g: "fetchFeed env feedURL (sys (feeds_loop env config before (cycle env config s0)))
                   = (Inr feed2, io3)"
      "Entries feed2 = e2 # es2" "Updated e2 = Updated e" by simp_all
    show n: "lastUpdates (feeds_loop env config before (cycle env config s0)) feedURL
                 = Some (Updated e)"
      using h by (rule nxt)
    show "feed_step env config feedURL (feeds_loop env config before (cycle env config s0))
                   = \<lparr>sys = io3,
                      lastUpdates = lastUpdates (feeds_loop env config before (cycle env config s0))\<rparr>"
      using later [OF n g] by (rule conjunct1)
    show "posts (trace (sys (feed_step env config feedURL
                                       (feeds_loop env config before (cycle env config s0)))))
                   = posts (trace (sys (feeds_loop env config before (cycle env config s0))))"
      using later [OF n g] by (rule conjunct2)
  qed
qed

theorem marker_recorded_before_delivery_witness:
  "fetchFeed (demo_env 500) ''feed1'' (sys (initial 0))
     = (Inr \<lparr>Entries = [demo_entry]\<rparr>, \<lparr>world = 1, trace = [HttpGet ''feed1'']\<rparr>)
   \<and> isNewUpdate (lastUpdates (initial (0::nat))) ''feed1'' (Updated demo_entry)
   \<and> sendMatrixMessage (demo_env 500) (MatrixServer (demo_config [''feed1'']))
        (MatrixRoomID (demo_config [''feed1''])) (MatrixToken (demo_config [''feed1'']))
        (''IT-News: ['' @ Title demo_entry @ ''](''  @ Href (Link demo_entry) @ '')'')
        \<lparr>world = 1, trace = [HttpGet ''feed1'']\<rparr>
       = (Some (Error ''failed to send message: status''),
          \<lparr>world = 2, trace = [HttpGet ''feed1'', ClientDo demo_request]\<rparr>)
   \<and> lastUpdates (feed_step (demo_env 500) (demo_config [''feed1'']) ''feed1'' (initial 0)) ''feed1''
       = Some (Updated demo_entry)
   \<and> \<not> isNewUpdate (lastUpdates (feed_step (demo_env 500) (demo_config [''feed1'']) ''feed1'' (initial 0)))
         ''feed1'' (Updated demo_entry)
   \<and> FeedURLs (demo_config [''feed1'']) = [] @ ''feed1'' # []
   \<and> lastUpdates (feeds_loop (demo_env 500) (demo_config [''feed1'']) []
                     (cycle (demo_env 500) (demo_config [''feed1'']) (initial 0))) ''feed1''
       = Some (Updated demo_entry)
   \<and> posts (trace (sys (feed_step (demo_env 500) (demo_config [''feed1'']) ''feed1''
                          (feeds_loop (demo_env 500) (demo_config [''feed1'']) []
                             (cycle (demo_env 500) (demo_config [''feed1'']) (initial 0))))))
       = posts (trace (sys (feeds_loop (demo_env 500) (demo_config [''feed1'']) []
                             (cycle (demo_env 500) (demo_config [''feed1'']) (initial 0)))))
   \<and> posts (trace (sys (feeds_loop (demo_env 500) (demo_config [''feed1'']) []
                             (cycle (demo_env 500) (demo_config [''feed1'']) (initial 0)))))
       = [demo_request]"
proof -
  have f: "fetchFeed (demo_env 500) ''feed1'' (sys (initial 0))
            = (Inr \<lparr>Entries = [demo_entry]\<rparr>, \<lparr>world = 1, trace = [HttpGet ''feed1'']\<rparr>)"
    by (simp add: demo_fetch1 initial_def)
  have e: "Entries \<lparr>Entries = [demo_entry]\<rparr> = demo_entry # []" by simp
  have n: "isNewUpdate (lastUpdates (initial (0::nat))) ''feed1'' (Updated demo_entry)"
    by (simp add: isNewUpdate_def map_index_def initial_def demo_entry_def)
  have d: "sendMatrixMessage (demo_env 500) (MatrixServer (demo_config [''feed1'']))
             (MatrixRoomID (demo_config [''feed1''])) (MatrixToken (demo_config [''feed1'']))
             (''IT-News: ['' @ Title demo_entry @ ''](''  @ Href (Link demo_entry) @ '')'')
             \<lparr>world = 1, trace = [HttpGet ''feed1'']\<rparr>
           = (Some (Error ''failed to send message: status''),
              \<lparr>world = 2, trace = [HttpGet ''feed1'', ClientDo demo_request]\<rparr>)"
    by (simp add: demo_config_def demo_entry_def demo_send)
  note w = marker_recorded_before_delivery [OF f e n d]
  note w5 = w [THEN conjunct2, THEN conjunct2, THEN conjunct2, THEN conjunct2, rule_format]
  have u: "FeedURLs (demo_config [''feed1'']) = [] @ ''feed1'' # []"
    by (simp add: demo_urls)
  have nb: "''feed1'' \<notin> set []"
    by simp
  have b: "feeds_loop (demo_env 500) (demo_config [''feed1'']) [] (initial 0) = initial 0"
    by simp
  have f2: "fetchFeed (demo_env 500) ''feed1''
              (sys (feeds_loop (demo_env 500) (demo_config [''feed1'']) []
                     (cycle (demo_env 500) (demo_config [''feed1'']) (initial 0))))
     = (Inr \<lparr>Entries = [demo_entry]\<rparr>,
        \<lparr>world = Suc (world (sys (feeds_loop (demo_env 500) (demo_config [''feed1'']) []
                     (cycle (demo_env 500) (demo_config [''feed1'']) (initial 0))))),
         trace = trace (sys (feeds_loop (demo_env 500) (demo_config [''feed1'']) []
                     (cycle (demo_env 500) (demo_config [''feed1'']) (initial 0))))
                 @ [HttpGet ''feed1'']\<rparr>)"
    by (rule demo_fetch1)
  note c = w5 [OF conjI [OF u conjI [OF nb conjI [OF nb conjI [OF b conjI [OF f2 conjI [OF e refl]]]]]]]
  have p: "posts (trace (sys (feeds_loop (demo_env 500) (demo_config [''feed1'']) []
                             (cycle (demo_env 500) (demo_config [''feed1'']) (initial 0)))))
       = [demo_request]"
    by (simp add: demo_cycle_first)
  show ?thesis
    by (intro conjI f n d w [THEN conjunct2, THEN conjunct1]
          w [THEN conjunct2, THEN conjunct2, THEN conjunct1] u
          c [THEN conjunct1] c [THEN conjunct2, THEN conjunct2] p)
qed

subsection \<open>The test for a new marker\<close>

text \<open>
  For a URL with no entry in the map and the empty string as candidate, the test is
  false: reading the map at an absent key gives the empty string.
\<close>

theorem isNewUpdate_unrecorded_empty_counterexample:
  "(Map.empty :: string \<rightharpoonup> string) ''feed1'' = None \<and> \<not> isNewUpdate Map.empty ''feed1'' []"
  by (simp add: isNewUpdate_def map_index_def)

text \<open>
  C2, as the code has it. The test is true if and only if the candidate differs, as a
  string, from the recorded marker, where a URL with no recorded marker counts as recorded
  with the empty string: no marker is recorded and the candidate is not empty, or a marker
  is recorded and differs from the candidate. No time is compared anywhere.
\<close>

theorem isNewUpdate_iff:
  "isNewUpdate m feedURL marker \<longleftrightarrow>
     (m feedURL = None \<and> marker \<noteq> []) \<or> (\<exists>recorded. m feedURL = Some recorded \<and> recorded \<noteq> marker)"
  by (cases "m feedURL") (auto simp: isNewUpdate_def map_index_def)

subsection \<open>The first poll of a feed\<close>

text \<open>
  A feed never recorded whose first entry has an empty \<open>updated\<close> field: the fetch
  succeeds with one entry, and the step hands no request to the HTTP client and prints
  nothing.
\<close>

theorem first_poll_empty_marker_counterexample:
  "lastUpdates (initial (0::nat)) ''feed3'' = None
   \<and> fst (fetchFeed (demo_env 200) ''feed3'' (sys (initial 0)))
       = Inr \<lparr>Entries = [\<lparr>Title = ''Big Release'', Updated = [], Link = \<lparr>Href = ''https://x.io/a''\<rparr>\<rparr>]\<rparr>
   \<and> posts (trace (sys (feed_step (demo_env 200) (demo_config [''feed3'']) ''feed3'' (initial 0)))) = []
   \<and> trace (sys (feed_step (demo_env 200) (demo_config [''feed3'']) ''feed3'' (initial 0)))
       = [HttpGet ''feed3'']"
proof -
  have a: "lastUpdates (initial (0::nat)) ''feed3'' = None"
    by (simp add: initial_def)
  have b: "fst (fetchFeed (demo_env 200) ''feed3'' (sys (initial 0)))
       = Inr \<lparr>Entries = [\<lparr>Title = ''Big Release'', Updated = [], Link = \<lparr>Href = ''https://x.io/a''\<rparr>\<rparr>]\<rparr>"
    by (simp add: demo_fetch3 demo_entry_def)
  have c: "trace (sys (feed_step (demo_env 200) (demo_config [''feed3'']) ''feed3'' (initial 0)))
       = [HttpGet ''feed3'']"
    using a by (simp add: demo_step3) (simp add: initial_def)
  have d: "posts (trace (sys (feed_step (demo_env 200) (demo_config [''feed3'']) ''feed3'' (initial 0)))) = []"
    unfolding c by simp
  show ?thesis by (intro conjI a b c d)
qed

text \<open>
  C3, as the code has it. For a feed with no recorded marker, a successful fetch with at
  least one entry whose first marker is not the empty string makes the step call
  \<open>sendMatrixMessage\<close> exactly once, with the message composed from the title and the
  link of the first entry; on the wire this is exactly one request when the request can
  be built, and none when \<open>json.Marshal\<close> or \<open>http.NewRequest\<close> fails.
\<close>

theorem first_poll_notifies:
  assumes "lastUpdates s feedURL = None"
    and "fetchFeed env feedURL (sys s) = (Inr feed, io1)"
    and "Entries feed = e # es"
    and "Updated e \<noteq> []"
    and "sendMatrixMessage env (MatrixServer config) (MatrixRoomID config) (MatrixToken config)
           (''IT-News: ['' @ Title e @ ''](''  @ Href (Link e) @ '')'') io1 = (r, io2)"
  shows "feed_step env config feedURL s =
           \<lparr>sys = println (case r of
                            Some err \<Rightarrow> ''Error sending Matrix message: '' @ error_text err
                          | None \<Rightarrow> ''Update message sent for feed: '' @ feedURL) io2,
            lastUpdates = (lastUpdates s)(feedURL \<mapsto> Updated e)\<rparr>
         \<and> posts (trace (sys (feed_step env config feedURL s))) =
             posts (trace (sys s)) @
             (case matrix_request env (MatrixServer config) (MatrixRoomID config) (MatrixToken config)
                     (''IT-News: ['' @ Title e @ ''](''  @ Href (Link e) @ '')'') of
                Inl err \<Rightarrow> []
              | Inr req \<Rightarrow> [req])"
proof -
  have new: "isNewUpdate (lastUpdates s) feedURL (Updated e)"
    using assms(1,4) by (simp add: isNewUpdate_def map_index_def)
  have step: "feed_step env config feedURL s =
           \<lparr>sys = println (case r of
                            Some err \<Rightarrow> ''Error sending Matrix message: '' @ error_text err
                          | None \<Rightarrow> ''Update message sent for feed: '' @ feedURL) io2,
            lastUpdates = (lastUpdates s)(feedURL \<mapsto> Updated e)\<rparr>"
    using assms(2,3) new assms(5) by (rule feed_step_notify)
  have "posts (trace io2) = posts (trace io1) @
             (case matrix_request env (MatrixServer config) (MatrixRoomID config) (MatrixToken config)
                     (''IT-News: ['' @ Title e @ ''](''  @ Href (Link e) @ '')'') of
                Inl err \<Rightarrow> []
              | Inr req \<Rightarrow> [req])"
    using assms(5) by (rule sendMatrixMessage_posts)
  moreover have "posts (trace io1) = posts (trace (sys s))"
    using assms(2) by (rule fetchFeed_posts)
  ultimately show ?thesis
    by (simp add: step println_posts)
qed

theorem first_poll_notifies_witness:
  "lastUpdates (initial (0::nat)) ''feed1'' = None
   \<and> fetchFeed (demo_env 200) ''feed1'' (sys (initial 0))
       = (Inr \<lparr>Entries = [demo_entry]\<rparr>, \<lparr>world = 1, trace = [HttpGet ''feed1'']\<rparr>)
   \<and> Updated demo_entry \<noteq> []
   \<and> posts (trace (sys (feed_step (demo_env 200) (demo_config [''feed1'']) ''feed1'' (initial 0))))
       = [demo_request]"
proof -
  have u: "lastUpdates (initial (0::nat)) ''feed1'' = None"
    by (simp add: initial_def)
  have f: "fetchFeed (demo_env 200) ''feed1'' (sys (initial 0))
            = (Inr \<lparr>Entries = [demo_entry]\<rparr>, \<lparr>world = 1, trace = [HttpGet ''feed1'']\<rparr>)"
    by (simp add: demo_fetch1 initial_def)
  have e: "Entries \<lparr>Entries = [demo_entry]\<rparr> = demo_entry # []" by simp
  have n: "Updated demo_entry \<noteq> []"
    by (simp add: demo_entry_def)
  have d: "sendMatrixMessage (demo_env 200) (MatrixServer (demo_config [''feed1'']))
             (MatrixRoomID (demo_config [''feed1''])) (MatrixToken (demo_config [''feed1'']))
             (''IT-News: ['' @ Title demo_entry @ ''](''  @ Href (Link demo_entry) @ '')'')
             \<lparr>world = 1, trace = [HttpGet ''feed1'']\<rparr>
           = (None, \<lparr>world = 2, trace = [HttpGet ''feed1'', ClientDo demo_request]\<rparr>)"
    by (simp add: demo_config_def demo_entry_def demo_send)
  have r: "matrix_request (demo_env 200) (MatrixServer (demo_config [''feed1'']))
             (MatrixRoomID (demo_config [''feed1''])) (MatrixToken (demo_config [''feed1'']))
             (''IT-News: ['' @ Title demo_entry @ ''](''  @ Href (Link demo_entry) @ '')'')
           = Inr demo_request"
    by (simp add: demo_config_def demo_entry_def demo_matrix_request)
  have p: "posts (trace (sys (feed_step (demo_env 200) (demo_config [''feed1'']) ''feed1'' (initial 0))))
       = [demo_request]"
    using first_poll_notifies [OF u f e n d, THEN conjunct2, unfolded r]
    by (simp add: initial_def)
  show ?thesis
    by (intro conjI u f n p)
qed

subsection \<open>The text of the message\<close>

text \<open>
  C4. In a step that notifies, for a first entry with title \<open>t\<close> and link \<open>l\<close>, whatever
  characters they hold, the message that the loop body composes is the text
  \<open>IT-News: [t](l)\<close>: this is the value of its \<open>fmt.Sprintf\<close> call, the message the step hands
  to \<open>sendMatrixMessage\<close>, the message from which the one request of the step is built, and
  the \<open>body\<close> field of the payload. For the title \<open>Big Release\<close> and the link
  \<open>https://x.io/a\<close> it is \<open>IT-News: [Big Release](https://x.io/a)\<close>.
\<close>

theorem message_format:
  assumes "fetchFeed env feedURL (sys s) = (Inr feed, io1)"
    and "Entries feed = \<lparr>Title = t, Updated = u, Link = \<lparr>Href = l\<rparr>\<rparr> # es"
    and "isNewUpdate (lastUpdates s) feedURL u"
  shows "sprintf ''IT-News: [%s](%s)''
           [Title (Entries feed ! 0), Href (Link (Entries feed ! 0))]
           = ''IT-News: ['' @ t @ ''](''  @ l @ '')''
         \<and> feed_step env config feedURL s =
             (case sendMatrixMessage env (MatrixServer config) (MatrixRoomID config)
                     (MatrixToken config) (''IT-News: ['' @ t @ ''](''  @ l @ '')'') io1 of
                (r, io2) \<Rightarrow>
                  \<lparr>sys = println (case r of
                                   Some err \<Rightarrow> ''Error sending Matrix message: '' @ error_text err
                                 | None \<Rightarrow> ''Update message sent for feed: '' @ feedURL) io2,
                   lastUpdates = (lastUpdates s)(feedURL \<mapsto> u)\<rparr>)
         \<and> posts (trace (sys (feed_step env config feedURL s))) =
             posts (trace (sys s)) @
             (case matrix_request env (MatrixServer config) (MatrixRoomID config)
                     (MatrixToken config) (''IT-News: ['' @ t @ ''](''  @ l @ '')'') of
                Inl err \<Rightarrow> []
              | Inr req \<Rightarrow> [req])
         \<and> payload (''IT-News: ['' @ t @ ''](''  @ l @ '')'')
              (markdown_ToHTML env (''IT-News: ['' @ t @ ''](''  @ l @ '')'')) ''body''
             = Some (''IT-News: ['' @ t @ ''](''  @ l @ '')'')
         \<and> (t = ''Big Release'' \<and> l = ''https://x.io/a'' \<longrightarrow>
              sprintf ''IT-News: [%s](%s)''
                [Title (Entries feed ! 0), Href (Link (Entries feed ! 0))]
              = ''IT-News: [Big Release](https://x.io/a)'')"
proof -
  obtain r io2 where snd: "sendMatrixMessage env (MatrixServer config) (MatrixRoomID config)
       (MatrixToken config) (''IT-News: ['' @ t @ ''](''  @ l @ '')'') io1 = (r, io2)"
    by (cases "sendMatrixMessage env (MatrixServer config) (MatrixRoomID config)
       (MatrixToken config) (''IT-News: ['' @ t @ ''](''  @ l @ '')'') io1") blast
  have new: "isNewUpdate (lastUpdates s) feedURL
               (Updated \<lparr>Title = t, Updated = u, Link = \<lparr>Href = l\<rparr>\<rparr>)"
    using assms(3) by simp
  have snd': "sendMatrixMessage env (MatrixServer config) (MatrixRoomID config) (MatrixToken config)
       (''IT-News: ['' @ Title \<lparr>Title = t, Updated = u, Link = \<lparr>Href = l\<rparr>\<rparr> @ ''](''
          @ Href (Link \<lparr>Title = t, Updated = u, Link = \<lparr>Href = l\<rparr>\<rparr>) @ '')'') io1 = (r, io2)"
    using snd by simp
  have step: "feed_step env config feedURL s =
           \<lparr>sys = println (case r of
                            Some err \<Rightarrow> ''Error sending Matrix message: '' @ error_text err
                          | None \<Rightarrow> ''Update message sent for feed: '' @ feedURL) io2,
            lastUpdates = (lastUpdates s)(feedURL \<mapsto> u)\<rparr>"
    using feed_step_notify [OF assms(1,2) new snd'] by simp
  have a: "sprintf ''IT-News: [%s](%s)''
           [Title (Entries feed ! 0), Href (Link (Entries feed ! 0))]
           = ''IT-News: ['' @ t @ ''](''  @ l @ '')''"
    by (simp add: assms(2))
  have b: "feed_step env config feedURL s =
             (case sendMatrixMessage env (MatrixServer config) (MatrixRoomID config)
                     (MatrixToken config) (''IT-News: ['' @ t @ ''](''  @ l @ '')'') io1 of
                (r, io2) \<Rightarrow>
                  \<lparr>sys = println (case r of
                                   Some err \<Rightarrow> ''Error sending Matrix message: '' @ error_text err
                                 | None \<Rightarrow> ''Update message sent for feed: '' @ feedURL) io2,
                   lastUpdates = (lastUpdates s)(feedURL \<mapsto> u)\<rparr>)"
    by (simp only: snd prod.case) (rule step)
  have p1: "posts (trace io1) = posts (trace (sys s))"
    using assms(1) by (rule fetchFeed_posts)
  have c: "posts (trace (sys (feed_step env config feedURL s))) =
             posts (trace (sys s)) @
             (case matrix_request env (MatrixServer config) (MatrixRoomID config)
                     (MatrixToken config) (''IT-News: ['' @ t @ ''](''  @ l @ '')'') of
                Inl err \<Rightarrow> []
              | Inr req \<Rightarrow> [req])"
    using sendMatrixMessage_posts [OF snd] by (simp add: step println_posts p1)
  have d: "payload (''IT-News: ['' @ t @ ''](''  @ l @ '')'')
              (markdown_ToHTML env (''IT-News: ['' @ t @ ''](''  @ l @ '')'')) ''body''
             = Some (''IT-News: ['' @ t @ ''](''  @ l @ '')'')"
    by (simp add: payload_def)
  have e: "t = ''Big Release'' \<and> l = ''https://x.io/a'' \<longrightarrow>
              sprintf ''IT-News: [%s](%s)''
                [Title (Entries feed ! 0), Href (Link (Entries feed ! 0))]
              = ''IT-News: [Big Release](https://x.io/a)''"
    by (simp add: assms(2))
  show ?thesis
    by (intro conjI a b c d e)
qed

theorem message_format_witness:
  "fetchFeed (demo_env 200) ''feed1'' (sys (initial 0))
     = (Inr \<lparr>Entries = [demo_entry]\<rparr>, \<lparr>world = 1, trace = [HttpGet ''feed1'']\<rparr>)
   \<and> Entries \<lparr>Entries = [demo_entry]\<rparr>
       = \<lparr>Title = ''Big Release'', Updated = ''2024-01-01T00:00Z'',
          Link = \<lparr>Href = ''https://x.io/a''\<rparr>\<rparr> # []
   \<and> isNewUpdate (lastUpdates (initial (0::nat))) ''feed1'' ''2024-01-01T00:00Z''
   \<and> sprintf ''IT-News: [%s](%s)''
         [Title (Entries \<lparr>Entries = [demo_entry]\<rparr> ! 0),
          Href (Link (Entries \<lparr>Entries = [demo_entry]\<rparr> ! 0))]
       = ''IT-News: [Big Release](https://x.io/a)''
   \<and> posts (trace (sys (feed_step (demo_env 200) (demo_config [''feed1'']) ''feed1'' (initial 0))))
       = [demo_request]
   \<and> Body demo_request = ''IT-News: [Big Release](https://x.io/a)''"
proof -
  have f: "fetchFeed (demo_env 200) ''feed1'' (sys (initial 0))
            = (Inr \<lparr>Entries = [demo_entry]\<rparr>, \<lparr>world = 1, trace = [HttpGet ''feed1'']\<rparr>)"
    by (simp add: demo_fetch1 initial_def)
  have e: "Entries \<lparr>Entries = [demo_entry]\<rparr>
       = \<lparr>Title = ''Big Release'', Updated = ''2024-01-01T00:00Z'',
          Link = \<lparr>Href = ''https://x.io/a''\<rparr>\<rparr> # []"
    by (simp add: demo_entry_def)
  have n: "isNewUpdate (lastUpdates (initial (0::nat))) ''feed1'' ''2024-01-01T00:00Z''"
    by (simp add: isNewUpdate_def map_index_def initial_def)
  note w = message_format [OF f e n, of "demo_config [''feed1'']"]
  have r: "matrix_request (demo_env 200) (MatrixServer (demo_config [''feed1'']))
             (MatrixRoomID (demo_config [''feed1''])) (MatrixToken (demo_config [''feed1'']))
             (''IT-News: ['' @ ''Big Release'' @ ''](''  @ ''https://x.io/a'' @ '')'')
           = Inr demo_request"
    by (simp add: demo_config_def demo_matrix_request)
  have p: "posts (trace (sys (feed_step (demo_env 200) (demo_config [''feed1'']) ''feed1'' (initial 0))))
       = [demo_request]"
    using w [THEN conjunct2, THEN conjunct2, THEN conjunct1, unfolded r]
    by (simp add: initial_def)
  have b: "Body demo_request = ''IT-News: [Big Release](https://x.io/a)''"
    by (simp add: demo_request_def)
  show ?thesis
    by (intro conjI f e n p b
          w [THEN conjunct2, THEN conjunct2, THEN conjunct2, THEN conjunct2, THEN mp,
             OF conjI [OF refl refl]])
qed

subsection \<open>A fetch that fails\<close>

text \<open>
  C5. When the fetch of a feed fails, the step prints the error and does nothing else:
  the trace grows by the GET and the printed line, no request goes to the HTTP client,
  and \<open>lastUpdates\<close> is unchanged. The inner loop goes on with the feeds that follow, from
  the state the feeds before left, so the round is never cut short; the model of the
  round is a total function, and the loop body has no exit.
\<close>

theorem fetch_error_isolated:
  assumes "fetchFeed env feedURL (sys s) = (Inl err, io1)"
  shows "feed_step env config feedURL s =
           s\<lparr>sys := println (''Error fetching feed: '' @ error_text err) io1\<rparr>
         \<and> trace (sys (feed_step env config feedURL s)) =
             trace (sys s) @ [HttpGet feedURL, Println (''Error fetching feed: '' @ error_text err)]
         \<and> lastUpdates (feed_step env config feedURL s) = lastUpdates s
         \<and> feeds_loop env config (feedURL # rest) s =
             feeds_loop env config rest
               (s\<lparr>sys := println (''Error fetching feed: '' @ error_text err) io1\<rparr>)
         \<and> (\<forall>before s0. feeds_loop env config before s0 = s \<longrightarrow>
               feeds_loop env config (before @ feedURL # rest) s0 =
               feeds_loop env config rest
                 (s\<lparr>sys := println (''Error fetching feed: '' @ error_text err) io1\<rparr>))"
proof -
  have step: "feed_step env config feedURL s =
           s\<lparr>sys := println (''Error fetching feed: '' @ error_text err) io1\<rparr>"
    using assms by (rule feed_step_fetch_error)
  have tr: "trace io1 = trace (sys s) @ [HttpGet feedURL]"
    using assms by (rule fetchFeed_sys)
  show ?thesis
    by (simp add: step tr println_def feeds_loop_append)
qed

theorem fetch_error_isolated_witness:
  "fetchFeed (demo_env 200) ''down'' (sys (initial 0))
     = (Inl (Error ''no such host''), \<lparr>world = 1, trace = [HttpGet ''down'']\<rparr>)
   \<and> trace (sys (feed_step (demo_env 200) (demo_config [''down'', ''feed1'']) ''down'' (initial 0)))
       = trace (sys (initial (0::nat))) @ [HttpGet ''down'', Println (''Error fetching feed: '' @ error_text (Error ''no such host''))]
   \<and> lastUpdates (feed_step (demo_env 200) (demo_config [''down'', ''feed1'']) ''down'' (initial 0))
       = lastUpdates (initial (0::nat))
   \<and> posts (trace (sys (feeds_loop (demo_env 200) (demo_config [''down'', ''feed1''])
                          [''down'', ''feed1''] (initial 0)))) = [demo_request]
   \<and> lastUpdates (feeds_loop (demo_env 200) (demo_config [''down'', ''feed1''])
                          [''down'', ''feed1''] (initial 0)) ''feed1'' = Some ''2024-01-01T00:00Z''"
proof -
  have f: "fetchFeed (demo_env 200) ''down'' (sys (initial 0))
     = (Inl (Error ''no such host''), \<lparr>world = 1, trace = [HttpGet ''down'']\<rparr>)"
    by (simp add: demo_fetch_down initial_def)
  note w = fetch_error_isolated [OF f, of "demo_config [''down'', ''feed1'']" "[''feed1'']"]
  have loop: "feeds_loop (demo_env 200) (demo_config [''down'', ''feed1'']) [''down'', ''feed1''] (initial 0)
     = feed_step (demo_env 200) (demo_config [''down'', ''feed1'']) ''feed1''
         ((initial 0)\<lparr>sys := println (''Error fetching feed: '' @ error_text (Error ''no such host''))
                                \<lparr>world = 1, trace = [HttpGet ''down'']\<rparr>\<rparr>)"
    using w [THEN conjunct2, THEN conjunct2, THEN conjunct2, THEN conjunct1] by simp
  have p: "posts (trace (sys (feeds_loop (demo_env 200) (demo_config [''down'', ''feed1''])
                          [''down'', ''feed1''] (initial 0)))) = [demo_request]"
    unfolding loop by (simp add: demo_step1 initial_def println_def posts_append)
  have l: "lastUpdates (feeds_loop (demo_env 200) (demo_config [''down'', ''feed1''])
                          [''down'', ''feed1''] (initial 0)) ''feed1'' = Some ''2024-01-01T00:00Z''"
    unfolding loop by (simp add: demo_step1 initial_def println_def)
  show ?thesis
    by (intro conjI f p l w [THEN conjunct2, THEN conjunct1]
          w [THEN conjunct2, THEN conjunct2, THEN conjunct1])
qed

subsection \<open>An unchanged marker\<close>

text \<open>
  C6. When the marker of the first entry equals the marker recorded for the URL, the
  step only fetches: no request goes to the HTTP client, nothing is printed, and the map
  is the same at every key. The title and the link of the entry are arbitrary.
\<close>

theorem same_marker_no_op:
  assumes "fetchFeed env feedURL (sys s) = (Inr feed, io1)"
    and "Entries feed = e # es"
    and "lastUpdates s feedURL = Some (Updated e)"
  shows "feed_step env config feedURL s = \<lparr>sys = io1, lastUpdates = lastUpdates s\<rparr>
         \<and> trace (sys (feed_step env config feedURL s)) = trace (sys s) @ [HttpGet feedURL]
         \<and> posts (trace (sys (feed_step env config feedURL s))) = posts (trace (sys s))
         \<and> lastUpdates (feed_step env config feedURL s) = lastUpdates s"
proof -
  have "\<not> hasNewUpdate (lastUpdates s) feedURL feed"
    using assms(2,3) by (simp add: hasNewUpdate_def isNewUpdate_def map_index_def)
  with assms(1) have step: "feed_step env config feedURL s = \<lparr>sys = io1, lastUpdates = lastUpdates s\<rparr>"
    by (rule feed_step_skip)
  have tr: "trace io1 = trace (sys s) @ [HttpGet feedURL]"
    using assms(1) by (rule fetchFeed_sys)
  show ?thesis
    by (simp add: step tr posts_append)
qed

theorem same_marker_no_op_witness:
  "fetchFeed (demo_env 200) ''feed1''
       (sys \<lparr>sys = \<lparr>world = 7, trace = []\<rparr>, lastUpdates = [''feed1'' \<mapsto> ''2024-01-01T00:00Z'']\<rparr>)
     = (Inr \<lparr>Entries = [demo_entry]\<rparr>, \<lparr>world = 8, trace = [HttpGet ''feed1'']\<rparr>)
   \<and> feed_step (demo_env 200) (demo_config [''feed1'']) ''feed1''
       \<lparr>sys = \<lparr>world = 7, trace = []\<rparr>, lastUpdates = [''feed1'' \<mapsto> ''2024-01-01T00:00Z'']\<rparr>
     = \<lparr>sys = \<lparr>world = 8, trace = [HttpGet ''feed1'']\<rparr>,
        lastUpdates = lastUpdates \<lparr>sys = \<lparr>world = 7::nat, trace = []\<rparr>,
                                   lastUpdates = [''feed1'' \<mapsto> ''2024-01-01T00:00Z'']\<rparr>\<rparr>"
proof -
  have f: "fetchFeed (demo_env 200) ''feed1''
       (sys \<lparr>sys = \<lparr>world = 7, trace = []\<rparr>, lastUpdates = [''feed1'' \<mapsto> ''2024-01-01T00:00Z'']\<rparr>)
     = (Inr \<lparr>Entries = [demo_entry]\<rparr>, \<lparr>world = 8, trace = [HttpGet ''feed1'']\<rparr>)"
    by (simp add: demo_fetch1)
  have e: "Entries \<lparr>Entries = [demo_entry]\<rparr> = demo_entry # []" by simp
  have m: "lastUpdates \<lparr>sys = \<lparr>world = (7::nat), trace = []\<rparr>,
                        lastUpdates = [''feed1'' \<mapsto> ''2024-01-01T00:00Z'']\<rparr> ''feed1''
           = Some (Updated demo_entry)"
    by (simp add: demo_entry_def)
  note w = same_marker_no_op [OF f e m]
  show ?thesis
    by (intro conjI f w [THEN conjunct1])
qed

subsection \<open>A feed without entries\<close>

text \<open>
  C7. When the fetched feed has no entry, the step only fetches: no request goes to the
  HTTP client and the map is unchanged. In a round over two different feeds, started with
  the empty map, where the first feed answers with the marker \<open>2024-01-01T00:00Z\<close> (and
  its request can be built) and the second answers with no entry, exactly one request
  goes out, the one for the first feed, and the map afterwards holds that marker for the
  first feed and nothing else.
\<close>

theorem empty_feed_skipped:
  "(fetchFeed env feedURL (sys s) = (Inr feed, io1) \<and> Entries feed = [] \<longrightarrow>
      feed_step env config feedURL s = \<lparr>sys = io1, lastUpdates = lastUpdates s\<rparr>
      \<and> trace (sys (feed_step env config feedURL s)) = trace (sys s) @ [HttpGet feedURL]
      \<and> posts (trace (sys (feed_step env config feedURL s))) = posts (trace (sys s))
      \<and> lastUpdates (feed_step env config feedURL s) = lastUpdates s)
   \<and> (FeedURLs config = [feed1, feed2] \<and> feed1 \<noteq> feed2
       \<and> fetchFeed env feed1 (sys (initial w)) = (Inr f1, io2)
       \<and> Entries f1 = e # es \<and> Updated e = ''2024-01-01T00:00Z''
       \<and> matrix_request env (MatrixServer config) (MatrixRoomID config) (MatrixToken config)
            (''IT-News: ['' @ Title e @ ''](''  @ Href (Link e) @ '')'') = Inr req
       \<and> fetchFeed env feed2 (sys (feed_step env config feed1 (initial w))) = (Inr f2, io3)
       \<and> Entries f2 = [] \<longrightarrow>
      posts (trace (sys (cycle env config (initial w)))) = [req]
      \<and> lastUpdates (cycle env config (initial w)) = [feed1 \<mapsto> ''2024-01-01T00:00Z'']
      \<and> lastUpdates (cycle env config (initial w)) feed1 = Some ''2024-01-01T00:00Z''
      \<and> lastUpdates (cycle env config (initial w)) feed2 = None)"
proof (intro conjI impI; elim conjE)
  assume f: "fetchFeed env feedURL (sys s) = (Inr feed, io1)" and e: "Entries feed = []"
  have "\<not> hasNewUpdate (lastUpdates s) feedURL feed"
    using e by (simp add: hasNewUpdate_def)
  with f have step: "feed_step env config feedURL s = \<lparr>sys = io1, lastUpdates = lastUpdates s\<rparr>"
    by (rule feed_step_skip)
  have tr: "trace io1 = trace (sys s) @ [HttpGet feedURL]"
    using f by (rule fetchFeed_sys)
  show "feed_step env config feedURL s = \<lparr>sys = io1, lastUpdates = lastUpdates s\<rparr>"
    by (rule step)
  show "trace (sys (feed_step env config feedURL s)) = trace (sys s) @ [HttpGet feedURL]"
    by (simp add: step tr)
  show "posts (trace (sys (feed_step env config feedURL s))) = posts (trace (sys s))"
    by (simp add: step tr posts_append)
  show "lastUpdates (feed_step env config feedURL s) = lastUpdates s"
    by (simp add: step)
next
  assume urls: "FeedURLs config = [feed1, feed2]" and ne: "feed1 \<noteq> feed2"
    and f1: "fetchFeed env feed1 (sys (initial w)) = (Inr f1, io2)"
    and e1: "Entries f1 = e # es" and m: "Updated e = ''2024-01-01T00:00Z''"
    and rq: "matrix_request env (MatrixServer config) (MatrixRoomID config) (MatrixToken config)
            (''IT-News: ['' @ Title e @ ''](''  @ Href (Link e) @ '')'') = Inr req"
    and f2: "fetchFeed env feed2 (sys (feed_step env config feed1 (initial w))) = (Inr f2, io3)"
    and e2: "Entries f2 = []"
  define s1 where "s1 = feed_step env config feed1 (initial w)"
  obtain r io' where snd: "sendMatrixMessage env (MatrixServer config) (MatrixRoomID config)
       (MatrixToken config) (''IT-News: ['' @ Title e @ ''](''  @ Href (Link e) @ '')'') io2 = (r, io')"
    by (cases "sendMatrixMessage env (MatrixServer config) (MatrixRoomID config)
       (MatrixToken config) (''IT-News: ['' @ Title e @ ''](''  @ Href (Link e) @ '')'') io2") blast
  have new: "isNewUpdate (lastUpdates (initial w)) feed1 (Updated e)"
    by (simp add: m isNewUpdate_def map_index_def initial_def)
  have step1: "s1 = \<lparr>sys = println (case r of
                            Some err \<Rightarrow> ''Error sending Matrix message: '' @ error_text err
                          | None \<Rightarrow> ''Update message sent for feed: '' @ feed1) io',
            lastUpdates = (lastUpdates (initial w))(feed1 \<mapsto> Updated e)\<rparr>"
    unfolding s1_def using f1 e1 new snd by (rule feed_step_notify)
  have p2: "posts (trace io2) = []"
    using fetchFeed_posts [OF f1] by (simp add: initial_def)
  have p1: "posts (trace (sys s1)) = [req]"
    using sendMatrixMessage_posts [OF snd, unfolded rq] by (simp add: step1 println_posts p2)
  have l1: "lastUpdates s1 = [feed1 \<mapsto> ''2024-01-01T00:00Z'']"
    by (simp add: step1 m initial_def)
  have "\<not> hasNewUpdate (lastUpdates s1) feed2 f2"
    using e2 by (simp add: hasNewUpdate_def)
  with f2 have step2: "feed_step env config feed2 s1 = \<lparr>sys = io3, lastUpdates = lastUpdates s1\<rparr>"
    unfolding s1_def by (rule feed_step_skip)
  have p3: "posts (trace io3) = [req]"
    using fetchFeed_posts [OF f2] p1 by (simp add: s1_def)
  have loop: "feeds_loop env config (FeedURLs config) (initial w)
                = \<lparr>sys = io3, lastUpdates = lastUpdates s1\<rparr>"
    by (simp add: urls s1_def [symmetric] step2)
  show "posts (trace (sys (cycle env config (initial w)))) = [req]"
    by (simp add: cycle_def loop posts_append p3)
  show l: "lastUpdates (cycle env config (initial w)) = [feed1 \<mapsto> ''2024-01-01T00:00Z'']"
    by (simp add: cycle_def loop l1)
  show "lastUpdates (cycle env config (initial w)) feed1 = Some ''2024-01-01T00:00Z''"
    by (simp add: l)
  show "lastUpdates (cycle env config (initial w)) feed2 = None"
    using ne by (simp add: l)
qed

theorem empty_feed_skipped_witness:
  "fetchFeed (demo_env 200) ''feed2'' (sys (initial (0::nat)))
     = (Inr \<lparr>Entries = []\<rparr>,
        \<lparr>world = Suc (world (sys (initial (0::nat)))), trace = trace (sys (initial (0::nat))) @ [HttpGet ''feed2'']\<rparr>)
   \<and> posts (trace (sys (feed_step (demo_env 200) (demo_config [''feed1'', ''feed2'']) ''feed2'' (initial (0::nat)))))
       = posts (trace (sys (initial (0::nat))))
   \<and> lastUpdates (feed_step (demo_env 200) (demo_config [''feed1'', ''feed2'']) ''feed2'' (initial (0::nat)))
       = lastUpdates (initial (0::nat))
   \<and> posts (trace (sys (cycle (demo_env 200) (demo_config [''feed1'', ''feed2'']) (initial (0::nat)))))
       = [demo_request]
   \<and> lastUpdates (cycle (demo_env 200) (demo_config [''feed1'', ''feed2'']) (initial (0::nat)))
       = [''feed1'' \<mapsto> ''2024-01-01T00:00Z'']
   \<and> lastUpdates (cycle (demo_env 200) (demo_config [''feed1'', ''feed2'']) (initial (0::nat))) ''feed2''
       = None"
proof -
  have f2: "fetchFeed (demo_env 200) ''feed2'' (sys (initial (0::nat)))
     = (Inr \<lparr>Entries = []\<rparr>,
        \<lparr>world = Suc (world (sys (initial (0::nat)))), trace = trace (sys (initial (0::nat))) @ [HttpGet ''feed2'']\<rparr>)"
    by (rule demo_fetch2)
  have e2: "Entries \<lparr>Entries = []\<rparr> = []"
    by simp
  note a = empty_feed_skipped [where env = "demo_env 200" and feedURL = "''feed2''"
      and s = "initial 0" and config = "demo_config [''feed1'', ''feed2'']",
      THEN conjunct1, THEN mp, OF conjI [OF f2 e2]]
  have urls: "FeedURLs (demo_config [''feed1'', ''feed2'']) = [''feed1'', ''feed2'']"
    by (rule demo_urls)
  have ne: "''feed1'' \<noteq> ''feed2''"
    by simp
  have f1: "fetchFeed (demo_env 200) ''feed1'' (sys (initial (0::nat)))
     = (Inr \<lparr>Entries = [demo_entry]\<rparr>,
        \<lparr>world = Suc (world (sys (initial (0::nat)))), trace = trace (sys (initial (0::nat))) @ [HttpGet ''feed1'']\<rparr>)"
    by (rule demo_fetch1)
  have e1: "Entries \<lparr>Entries = [demo_entry]\<rparr> = demo_entry # []"
    by simp
  have m: "Updated demo_entry = ''2024-01-01T00:00Z''"
    by (simp add: demo_entry_def)
  have r: "matrix_request (demo_env 200) (MatrixServer (demo_config [''feed1'', ''feed2'']))
             (MatrixRoomID (demo_config [''feed1'', ''feed2'']))
             (MatrixToken (demo_config [''feed1'', ''feed2'']))
             (''IT-News: ['' @ Title demo_entry @ ''](''  @ Href (Link demo_entry) @ '')'')
           = Inr demo_request"
    by (simp add: demo_config_def demo_entry_def demo_matrix_request)
  have f3: "fetchFeed (demo_env 200) ''feed2''
              (sys (feed_step (demo_env 200) (demo_config [''feed1'', ''feed2'']) ''feed1'' (initial (0::nat))))
     = (Inr \<lparr>Entries = []\<rparr>,
        \<lparr>world = Suc (world (sys (feed_step (demo_env 200) (demo_config [''feed1'', ''feed2''])
                                     ''feed1'' (initial (0::nat))))),
         trace = trace (sys (feed_step (demo_env 200) (demo_config [''feed1'', ''feed2''])
                               ''feed1'' (initial (0::nat)))) @ [HttpGet ''feed2'']\<rparr>)"
    by (rule demo_fetch2)
  note b = empty_feed_skipped [THEN conjunct2, THEN mp,
      OF conjI [OF urls conjI [OF ne conjI [OF f1 conjI [OF e1 conjI [OF m conjI [OF r
           conjI [OF f3 e2]]]]]]]]
  show ?thesis
    by (intro conjI f2 a [THEN conjunct2, THEN conjunct2, THEN conjunct1]
          a [THEN conjunct2, THEN conjunct2, THEN conjunct2]
          b [THEN conjunct1] b [THEN conjunct2, THEN conjunct1]
          b [THEN conjunct2, THEN conjunct2, THEN conjunct2])
qed

subsection \<open>Delivery\<close>

text \<open>
  C8. The payload holds exactly the four keys \<open>msgtype\<close>, \<open>body\<close>, \<open>format\<close> and
  \<open>formatted_body\<close>, with the values \<open>m.text\<close>, the message as given,
  \<open>org.matrix.custom.html\<close> and the message rendered by \<open>markdown.ToHTML\<close>. The request is
  built exactly when the payload serialises and \<open>http.NewRequest\<close> accepts the URL; it
  is then a POST to \<open>{server}/_matrix/client/r0/rooms/{roomID}/send/m.room.message?access_token={token}\<close>
  whose body is the serialised payload. A call hands that one request to the HTTP client
  when it is built and none otherwise, and it returns no error if and only if the request
  was built, the client returned a response and the status code of the response is 200.
\<close>

theorem sendMatrixMessage_contract:
  "dom (payload message (markdown_ToHTML env message))
     = {''msgtype'', ''body'', ''format'', ''formatted_body''}
   \<and> payload message (markdown_ToHTML env message) ''msgtype'' = Some ''m.text''
   \<and> payload message (markdown_ToHTML env message) ''body'' = Some message
   \<and> payload message (markdown_ToHTML env message) ''format'' = Some ''org.matrix.custom.html''
   \<and> payload message (markdown_ToHTML env message) ''formatted_body''
       = Some (markdown_ToHTML env message)
   \<and> (matrix_request env server roomID token message = Inr req \<longleftrightarrow>
        (\<exists>payloadBytes.
           json_Marshal env (payload message (markdown_ToHTML env message)) = Inr payloadBytes
           \<and> http_NewRequest env ''POST''
                (server @ ''/_matrix/client/r0/rooms/'' @ roomID
                   @ ''/send/m.room.message?access_token='' @ token) = None
           \<and> req = \<lparr>Method = ''POST'',
                     URL = server @ ''/_matrix/client/r0/rooms/'' @ roomID
                             @ ''/send/m.room.message?access_token='' @ token,
                     Header = [(''Content-Type'', ''application/json'')],
                     Body = payloadBytes\<rparr>))
   \<and> (sendMatrixMessage env server roomID token message io = (r, io') \<longrightarrow>
        posts (trace io') = posts (trace io) @
          (case matrix_request env server roomID token message of
             Inl err \<Rightarrow> []
           | Inr req \<Rightarrow> [req])
        \<and> (r = None \<longleftrightarrow>
             (\<exists>req resp w'. matrix_request env server roomID token message = Inr req
                \<and> client_Do env req (world io) = (Inr resp, w')
                \<and> StatusCode resp = 200)))"
proof (intro conjI impI)
  show "dom (payload message (markdown_ToHTML env message))
     = {''msgtype'', ''body'', ''format'', ''formatted_body''}"
    by (auto simp: payload_def)
  show "payload message (markdown_ToHTML env message) ''msgtype'' = Some ''m.text''"
    by (simp add: payload_def)
  show "payload message (markdown_ToHTML env message) ''body'' = Some message"
    by (simp add: payload_def)
  show "payload message (markdown_ToHTML env message) ''format'' = Some ''org.matrix.custom.html''"
    by (simp add: payload_def)
  show "payload message (markdown_ToHTML env message) ''formatted_body''
       = Some (markdown_ToHTML env message)"
    by (simp add: payload_def)
  show "matrix_request env server roomID token message = Inr req \<longleftrightarrow>
        (\<exists>payloadBytes.
           json_Marshal env (payload message (markdown_ToHTML env message)) = Inr payloadBytes
           \<and> http_NewRequest env ''POST''
                (server @ ''/_matrix/client/r0/rooms/'' @ roomID
                   @ ''/send/m.room.message?access_token='' @ token) = None
           \<and> req = \<lparr>Method = ''POST'',
                     URL = server @ ''/_matrix/client/r0/rooms/'' @ roomID
                             @ ''/send/m.room.message?access_token='' @ token,
                     Header = [(''Content-Type'', ''application/json'')],
                     Body = payloadBytes\<rparr>)"
    unfolding matrix_request_def Let_def sprintf_url
    by (auto split: sum.splits option.splits)
next
  assume snd: "sendMatrixMessage env server roomID token message io = (r, io')"
  show "posts (trace io') = posts (trace io) @
          (case matrix_request env server roomID token message of
             Inl err \<Rightarrow> []
           | Inr req \<Rightarrow> [req])"
    using snd by (rule sendMatrixMessage_posts)
  show "r = None \<longleftrightarrow>
             (\<exists>req resp w'. matrix_request env server roomID token message = Inr req
                \<and> client_Do env req (world io) = (Inr resp, w')
                \<and> StatusCode resp = 200)"
    using snd unfolding sendMatrixMessage_def
    by (auto split: sum.splits prod.splits if_splits)
qed

theorem sendMatrixMessage_contract_witness:
  "sendMatrixMessage (demo_env 200) ''srv'' ''room'' ''tok''
       ''IT-News: [Big Release](https://x.io/a)'' \<lparr>world = 0, trace = []\<rparr>
     = (None, \<lparr>world = 1, trace = [ClientDo demo_request]\<rparr>)
   \<and> posts (trace \<lparr>world = 1::nat, trace = [ClientDo demo_request]\<rparr>)
       = posts (trace \<lparr>world = 0::nat, trace = []\<rparr>) @
          (case matrix_request (demo_env 200) ''srv'' ''room'' ''tok''
                  ''IT-News: [Big Release](https://x.io/a)'' of
             Inl err \<Rightarrow> []
           | Inr req \<Rightarrow> [req])
   \<and> matrix_request (demo_env 200) ''srv'' ''room'' ''tok''
        ''IT-News: [Big Release](https://x.io/a)'' = Inr demo_request"
proof -
  have d: "sendMatrixMessage (demo_env 200) ''srv'' ''room'' ''tok''
       ''IT-News: [Big Release](https://x.io/a)'' \<lparr>world = 0, trace = []\<rparr>
     = (None, \<lparr>world = 1, trace = [ClientDo demo_request]\<rparr>)"
    by (simp add: demo_send)
  note w = sendMatrixMessage_contract [where env = "demo_env 200" and server = "''srv''"
      and roomID = "''room''" and token = "''tok''"
      and message = "''IT-News: [Big Release](https://x.io/a)''"
      and io = "\<lparr>world = 0, trace = []\<rparr>" and r = None
      and io' = "\<lparr>world = 1, trace = [ClientDo demo_request]\<rparr>"]
  note w7 = w [THEN conjunct2, THEN conjunct2, THEN conjunct2, THEN conjunct2, THEN conjunct2,
      THEN conjunct2, THEN mp, OF d]
  show ?thesis
    by (intro conjI d w7 [THEN conjunct1] demo_matrix_request)
qed

subsection \<open>What the decision depends on\<close>

text \<open>
  C9. Two feeds whose first entries carry the same marker, or that are both empty, get
  the same decision against the same map, whatever their titles and links; and the map
  after the step is the same for both, in any two environments that return them.
\<close>

theorem decision_ignores_title_and_link:
  assumes "map Updated (take 1 (Entries f1)) = map Updated (take 1 (Entries f2))"
  shows "hasNewUpdate m feedURL f1 = hasNewUpdate m feedURL f2
         \<and> (fetchFeed env1 feedURL (sys s1) = (Inr f1, io1)
            \<and> fetchFeed env2 feedURL (sys s2) = (Inr f2, io2)
            \<and> lastUpdates s1 = lastUpdates s2 \<longrightarrow>
              lastUpdates (feed_step env1 config1 feedURL s1)
                = lastUpdates (feed_step env2 config2 feedURL s2))"
proof -
  have dec: "hasNewUpdate m feedURL f1 = hasNewUpdate m feedURL f2" for m
    using assms by (cases "Entries f1"; cases "Entries f2") (simp_all add: hasNewUpdate_def)
  have mark: "Updated (Entries f1 ! 0) = Updated (Entries f2 ! 0)" if "Entries f1 \<noteq> []"
    using assms that by (cases "Entries f1"; cases "Entries f2") simp_all
  have ne: "Entries f1 \<noteq> []" if "hasNewUpdate m feedURL f1" for m
    using that by (auto simp: hasNewUpdate_def)
  show ?thesis
  proof (intro conjI impI, goal_cases)
    case 1
    show ?case by (rule dec)
  next
    case 2
    then have a: "fetchFeed env1 feedURL (sys s1) = (Inr f1, io1)"
      and b: "fetchFeed env2 feedURL (sys s2) = (Inr f2, io2)"
      and c: "lastUpdates s1 = lastUpdates s2" by simp_all
    show ?case
      unfolding feed_step_lastUpdates [OF a] feed_step_lastUpdates [OF b] c
      using dec [of "lastUpdates s2"] mark ne [of "lastUpdates s2"] by auto
  qed
qed

theorem decision_ignores_title_and_link_witness:
  "map Updated (take 1 (Entries \<lparr>Entries = [demo_entry]\<rparr>))
     = map Updated (take 1 (Entries \<lparr>Entries =
         [demo_entry\<lparr>Title := ''Other'', Link := \<lparr>Href = ''https://y.io/b''\<rparr>\<rparr>]\<rparr>))
   \<and> Title demo_entry \<noteq> Title (demo_entry\<lparr>Title := ''Other'', Link := \<lparr>Href = ''https://y.io/b''\<rparr>\<rparr>)
   \<and> hasNewUpdate Map.empty ''feed1'' \<lparr>Entries = [demo_entry]\<rparr>
   \<and> hasNewUpdate Map.empty ''feed1'' \<lparr>Entries =
         [demo_entry\<lparr>Title := ''Other'', Link := \<lparr>Href = ''https://y.io/b''\<rparr>\<rparr>]\<rparr>
   \<and> lastUpdates (feed_step (demo_env 200) (demo_config [''feed1'']) ''feed1'' (initial (0::nat)))
       = lastUpdates (feed_step (demo_env_retitled 500) (demo_config [''feed1'']) ''feed1''
                       (initial (0::nat)))"
proof -
  have h: "map Updated (take 1 (Entries \<lparr>Entries = [demo_entry]\<rparr>))
     = map Updated (take 1 (Entries \<lparr>Entries =
         [demo_entry\<lparr>Title := ''Other'', Link := \<lparr>Href = ''https://y.io/b''\<rparr>\<rparr>]\<rparr>))"
    by simp
  have t: "Title demo_entry \<noteq> Title (demo_entry\<lparr>Title := ''Other'', Link := \<lparr>Href = ''https://y.io/b''\<rparr>\<rparr>)"
    by (simp add: demo_entry_def)
  have a: "hasNewUpdate Map.empty ''feed1'' \<lparr>Entries = [demo_entry]\<rparr>"
    by (simp add: hasNewUpdate_def isNewUpdate_def map_index_def demo_entry_def)
  note w = decision_ignores_title_and_link [OF h]
  have b: "hasNewUpdate Map.empty ''feed1'' \<lparr>Entries =
         [demo_entry\<lparr>Title := ''Other'', Link := \<lparr>Href = ''https://y.io/b''\<rparr>\<rparr>]\<rparr>"
    by (rule iffD1 [OF w [THEN conjunct1] a])
  have f1: "fetchFeed (demo_env 200) ''feed1'' (sys (initial (0::nat)))
     = (Inr \<lparr>Entries = [demo_entry]\<rparr>,
        \<lparr>world = Suc (world (sys (initial (0::nat)))),
         trace = trace (sys (initial (0::nat))) @ [HttpGet ''feed1'']\<rparr>)"
    by (rule demo_fetch1)
  have f2: "fetchFeed (demo_env_retitled 500) ''feed1'' (sys (initial (0::nat)))
     = (Inr \<lparr>Entries = [demo_entry\<lparr>Title := ''Other'', Link := \<lparr>Href = ''https://y.io/b''\<rparr>\<rparr>]\<rparr>,
        \<lparr>world = Suc (world (sys (initial (0::nat)))),
         trace = trace (sys (initial (0::nat))) @ [HttpGet ''feed1'']\<rparr>)"
    by (rule demo_fetch1_retitled)
  have c: "lastUpdates (feed_step (demo_env 200) (demo_config [''feed1'']) ''feed1'' (initial (0::nat)))
       = lastUpdates (feed_step (demo_env_retitled 500) (demo_config [''feed1'']) ''feed1''
                       (initial (0::nat)))"
    by (rule w [THEN conjunct2, THEN mp, OF conjI [OF f1 conjI [OF f2 refl]]])
  show ?thesis by (intro conjI h t a b c)
qed

subsection \<open>The empty marker\<close>

text \<open>
  C10. For a URL with no recorded marker, the map read at that URL is the empty string.
  When the first entry of the fetched feed has the empty string as marker, the marker is
  judged not new, the step only fetches (no request goes to the HTTP client) and the map
  is unchanged. For the test, a URL never recorded and a URL recorded with the empty
  marker are the same, at every candidate marker.
\<close>

theorem empty_marker_never_notified:
  assumes "lastUpdates s feedURL = None"
    and "fetchFeed env feedURL (sys s) = (Inr feed, io1)"
    and "Entries feed = e # es"
    and "Updated e = []"
  shows "map_index (lastUpdates s) feedURL = []
         \<and> \<not> isNewUpdate (lastUpdates s) feedURL (Updated e)
         \<and> feed_step env config feedURL s = \<lparr>sys = io1, lastUpdates = lastUpdates s\<rparr>
         \<and> trace (sys (feed_step env config feedURL s)) = trace (sys s) @ [HttpGet feedURL]
         \<and> posts (trace (sys (feed_step env config feedURL s))) = posts (trace (sys s))
         \<and> lastUpdates (feed_step env config feedURL s) = lastUpdates s
         \<and> isNewUpdate (lastUpdates s) feedURL marker
             = isNewUpdate ((lastUpdates s)(feedURL \<mapsto> [])) feedURL marker"
proof -
  have "\<not> hasNewUpdate (lastUpdates s) feedURL feed"
    using assms(1,3,4) by (simp add: hasNewUpdate_def isNewUpdate_def map_index_def)
  with assms(2) have step: "feed_step env config feedURL s = \<lparr>sys = io1, lastUpdates = lastUpdates s\<rparr>"
    by (rule feed_step_skip)
  have tr: "trace io1 = trace (sys s) @ [HttpGet feedURL]"
    using assms(2) by (rule fetchFeed_sys)
  show ?thesis
    using assms(1,4) by (simp add: step tr posts_append isNewUpdate_def map_index_def)
qed

theorem empty_marker_never_notified_witness:
  "lastUpdates (initial (0::nat)) ''feed3'' = None
   \<and> fetchFeed (demo_env 200) ''feed3'' (sys (initial 0))
       = (Inr \<lparr>Entries = [demo_entry\<lparr>Updated := []\<rparr>]\<rparr>, \<lparr>world = 1, trace = [HttpGet ''feed3'']\<rparr>)
   \<and> Updated (demo_entry\<lparr>Updated := []\<rparr>) = []
   \<and> feed_step (demo_env 200) (demo_config [''feed3'']) ''feed3'' (initial 0)
       = \<lparr>sys = \<lparr>world = 1, trace = [HttpGet ''feed3'']\<rparr>, lastUpdates = lastUpdates (initial (0::nat))\<rparr>"
proof -
  have u: "lastUpdates (initial (0::nat)) ''feed3'' = None"
    by (simp add: initial_def)
  have f: "fetchFeed (demo_env 200) ''feed3'' (sys (initial 0))
       = (Inr \<lparr>Entries = [demo_entry\<lparr>Updated := []\<rparr>]\<rparr>, \<lparr>world = 1, trace = [HttpGet ''feed3'']\<rparr>)"
    by (simp add: demo_fetch3 initial_def)
  have e: "Entries \<lparr>Entries = [demo_entry\<lparr>Updated := []\<rparr>]\<rparr> = demo_entry\<lparr>Updated := []\<rparr> # []"
    by simp
  have m: "Updated (demo_entry\<lparr>Updated := []\<rparr>) = []"
    by simp
  note w = empty_marker_never_notified [OF u f e m]
  show ?thesis
    by (intro conjI u f m w [THEN conjunct2, THEN conjunct2, THEN conjunct1])
qed

end
